theory Spec2Isabelle
  imports Complex_Main "HOL-Library.Word"
begin

section \<open>Data model\<close>

text \<open>
  JavaScript strings are sequences of UTF-16 code units. The document text is the only
  string the program inspects character by character (\<^verbatim>\<open>documentText.trim()\<close>), so it
  is kept as a list of code units. Every other string is only copied, tested for
  emptiness, appended to, or compared with an ASCII literal, and is kept as a \<^typ>\<open>string\<close>.
\<close>

type_synonym jsstring = "16 word list"

text \<open>
  \<^verbatim>\<open>interface CreditAgreement\<close> (App.tsx lines 7--17, ReviewInterface.tsx lines 8--18).
  \<^verbatim>\<open>amount: number\<close> is a finite number taken from JSON; the program only copies it.
  \<^verbatim>\<open>extraction_status?: string\<close> is optional: \<open>None\<close> is \<^verbatim>\<open>undefined\<close>.
\<close>

record Party =
  name :: string
  role :: string

record Commitment =
  amount :: real
  currency :: string

record Facility =
  facility_name :: string
  commitment_amount :: Commitment
  maturity_date :: string

record CreditAgreement =
  agreement_date :: string
  parties :: "Party list"
  facilities :: "Facility list"
  governing_law :: string
  extraction_status :: "string option"

text \<open>
  \<^verbatim>\<open>interface CreditNexusLoanContext\<close> (useFDC3, lines 5--12). The fields marked
  \<^verbatim>\<open>?\<close> in the interface are options. The field names repeat those of the agreement, as
  in the source; the earlier ones are written qualified (\<open>Party.name\<close>,
  \<open>Commitment.amount\<close>, \<open>CreditAgreement.parties\<close>) from here on.
\<close>

record LoanFacility =
  name :: string
  amount :: real
  currency :: string

record Loan =
  agreementDate :: "string option"
  parties :: "Party list option"
  facilities :: "LoanFacility list option"

record CreditNexusLoanContext =
  type :: string
  loan :: "Loan option"

section \<open>Observable effects\<close>

text \<open>
  The handlers return nothing; what they do is call the console, \<^verbatim>\<open>alert\<close>,
  \<^verbatim>\<open>fetch\<close> and the FDC3 desktop agent. Each such call is an \<open>effect\<close>, and a handler
  is modelled by the list of effects it causes, in the order they happen.
\<close>

datatype js_error =
    Error string      \<comment> \<open>\<^verbatim>\<open>new Error(message)\<close>\<close>
  | TypeError         \<comment> \<open>raised by the engine: failed \<^verbatim>\<open>fetch\<close>, property read on \<^verbatim>\<open>null\<close>\<close>
  | SyntaxError       \<comment> \<open>raised by \<^verbatim>\<open>response.json()\<close> on a body that is not JSON\<close>

datatype logged =
    LoggedContext CreditNexusLoanContext
  | LoggedAgreement CreditAgreement
  | LoggedReason "string option"
  | LoggedError js_error

datatype effect =
    ConsoleLog string "logged option"     \<comment> \<open>\<^verbatim>\<open>console.log(label, value)\<close>\<close>
  | ConsoleError string logged            \<comment> \<open>\<^verbatim>\<open>console.error(label, value)\<close>\<close>
  | Alert string                          \<comment> \<open>\<^verbatim>\<open>alert(message)\<close>\<close>
  | Fdc3Broadcast CreditNexusLoanContext  \<comment> \<open>\<^verbatim>\<open>window.fdc3.broadcast(context)\<close>\<close>
  | Fdc3AddContextListener string         \<comment> \<open>\<^verbatim>\<open>window.fdc3.addContextListener(type, handler)\<close>\<close>
  | Fetch jsstring                        \<comment> \<open>\<^verbatim>\<open>POST /api/extract\<close> with body \<^verbatim>\<open>{text}\<close>\<close>

text \<open>How a promise settles.\<close>

datatype outcome = Fulfilled | RejectedWith js_error

section \<open>The hook \<^verbatim>\<open>useFDC3\<close>\<close>

text \<open>
  The value of \<^verbatim>\<open>window.fdc3\<close> is \<open>None\<close> when the host exposes no desktop agent.
  An agent is given by how the promise of its \<^verbatim>\<open>broadcast\<close> settles for a context.
  The hook runs in the browser, where \<^verbatim>\<open>window\<close> is defined.
\<close>

type_synonym DesktopAgent = "CreditNexusLoanContext \<Rightarrow> outcome"

record FDC3_state =
  isAvailable :: bool
  context' :: "CreditNexusLoanContext option"

text \<open>\<^verbatim>\<open>useState(false)\<close>, \<^verbatim>\<open>useState(null)\<close> (lines 15--16).\<close>

definition useFDC3_initial :: FDC3_state where
  "useFDC3_initial = \<lparr> isAvailable = False, context' = None \<rparr>"

text \<open>
  The effect with the empty dependency list (lines 18--44): it runs when the component
  that uses the hook mounts. It is the only place that calls \<^verbatim>\<open>setIsAvailable\<close>.
\<close>

definition useFDC3_effect :: "DesktopAgent option \<Rightarrow> FDC3_state \<Rightarrow> FDC3_state \<times> effect list" where
  "useFDC3_effect window_fdc3 s =
     (let available = (window_fdc3 \<noteq> None) in
      (s\<lparr> isAvailable := available \<rparr>,
       if available \<and> window_fdc3 \<noteq> None
       then [Fdc3AddContextListener ''fdc3.creditnexus.loan'']
       else [ConsoleLog ''[FDC3 Mock] FDC3 not available, using mock mode'' None]))"

text \<open>
  \<^verbatim>\<open>broadcast\<close> (lines 46--59). It returns \<^verbatim>\<open>undefined\<close> at once; the first component
  is what it does before returning, the second what the \<^verbatim>\<open>then\<close>/\<^verbatim>\<open>catch\<close> callbacks
  do once the agent's promise has settled.
\<close>

definition broadcast ::
  "FDC3_state \<Rightarrow> DesktopAgent option \<Rightarrow> CreditNexusLoanContext \<Rightarrow> effect list \<times> effect list" where
  "broadcast s window_fdc3 loanContext =
     (case (if isAvailable s then window_fdc3 else None) of
        Some agent \<Rightarrow>
          ([Fdc3Broadcast loanContext],
           case agent loanContext of
             Fulfilled \<Rightarrow> [ConsoleLog ''[FDC3] Broadcast successful:'' (Some (LoggedContext loanContext))]
           | RejectedWith e \<Rightarrow> [ConsoleError ''[FDC3] Broadcast failed:'' (LoggedError e)])
      | None \<Rightarrow>
          ([ConsoleLog ''[FDC3 Mock] Would broadcast:'' (Some (LoggedContext loanContext))], []))"

text \<open>The hook's state once the component that uses it has mounted on a given host.\<close>

definition mounted :: "DesktopAgent option \<Rightarrow> FDC3_state" where
  "mounted window_fdc3 = fst (useFDC3_effect window_fdc3 useFDC3_initial)"

text \<open>
  A series of \<^verbatim>\<open>broadcast\<close> calls made through one mounted hook. Each call comes with
  the value \<^verbatim>\<open>window.fdc3\<close> has at that moment. No call writes the hook's state.
\<close>

fun broadcastAll ::
  "FDC3_state \<Rightarrow> (DesktopAgent option \<times> CreditNexusLoanContext) list \<Rightarrow> effect list" where
  "broadcastAll s [] = []"
| "broadcastAll s ((window_fdc3, c) # calls) =
     fst (broadcast s window_fdc3 c) @ snd (broadcast s window_fdc3 c) @ broadcastAll s calls"

section \<open>The component \<^verbatim>\<open>ReviewInterface\<close>\<close>

text \<open>
  The object literal that \<^verbatim>\<open>handleApprove\<close> passes to \<^verbatim>\<open>broadcast\<close> (lines 39--50);
  the specification calls it \<open>toWireContext\<close>. This is the literal on an agreement of
  the declared type, where \<^verbatim>\<open>facilities\<close> is an array and \<^verbatim>\<open>?.map\<close> is
  \<^verbatim>\<open>map\<close>; \<open>rt_toWireContext\<close> below is the literal on any stored value.
\<close>

definition toWireContext :: "CreditAgreement \<Rightarrow> CreditNexusLoanContext" where
  "toWireContext extractedData =
     \<lparr> type = ''fdc3.creditnexus.loan'',
       loan = Some
         \<lparr> agreementDate = Some (agreement_date extractedData),
           parties = Some (CreditAgreement.parties extractedData),
           facilities = Some (map (\<lambda>f.
               \<lparr> name = facility_name f,
                 amount = Commitment.amount (commitment_amount f),
                 currency = Commitment.currency (commitment_amount f) \<rparr>)
             (CreditAgreement.facilities extractedData)) \<rparr> \<rparr>"

text \<open>
  \<^verbatim>\<open>handleApprove\<close> (lines 36--53). \<^verbatim>\<open>onApprove\<close> is the callback passed in by the parent.
  It is called as soon as \<^verbatim>\<open>broadcast\<close> has returned, before the agent's promise settles.
\<close>

definition ReviewInterface_handleApprove ::
  "FDC3_state \<Rightarrow> DesktopAgent option \<Rightarrow> (CreditAgreement \<Rightarrow> effect list)
     \<Rightarrow> CreditAgreement option \<Rightarrow> effect list" where
  "ReviewInterface_handleApprove s window_fdc3 onApprove extractedData =
     (case extractedData of
        None \<Rightarrow> []
      | Some d \<Rightarrow>
          (let (now, later) = broadcast s window_fdc3 (toWireContext d)
           in now @ onApprove d @ later))"

text \<open>\<^verbatim>\<open>handleReject\<close> (lines 55--57); \<^verbatim>\<open>rejectionReason\<close> is the component's state.\<close>

definition ReviewInterface_handleReject ::
  "(string option \<Rightarrow> effect list) \<Rightarrow> string \<Rightarrow> effect list" where
  "ReviewInterface_handleReject onReject rejectionReason =
     onReject (Some (if rejectionReason \<noteq> [] then rejectionReason else ''Rejected by analyst''))"

text \<open>Lines 70--71. \<^verbatim>\<open>!extraction_status\<close> holds for \<^verbatim>\<open>undefined\<close> and for the empty string.\<close>

definition isSuccess :: "CreditAgreement \<Rightarrow> bool" where
  "isSuccess extractedData \<longleftrightarrow>
     extraction_status extractedData = Some ''success''
     \<or> extraction_status extractedData = None \<or> extraction_status extractedData = Some []"

definition isFailure :: "CreditAgreement \<Rightarrow> bool" where
  "isFailure extractedData \<longleftrightarrow> extraction_status extractedData = Some ''irrelevant_document''"

text \<open>
  The Approve button (lines 199--205): \<^verbatim>\<open>disabled={!extractedData || !isSuccess}\<close>.
  Without data the component returns early (lines 59--68) and renders no button.
  A click on a disabled button calls no handler.
\<close>

definition approveDisabled :: "CreditAgreement option \<Rightarrow> bool" where
  "approveDisabled extractedData =
     (case extractedData of None \<Rightarrow> True | Some d \<Rightarrow> \<not> isSuccess d)"

definition ReviewInterface_clickApprove ::
  "FDC3_state \<Rightarrow> DesktopAgent option \<Rightarrow> (CreditAgreement \<Rightarrow> effect list)
     \<Rightarrow> CreditAgreement option \<Rightarrow> effect list" where
  "ReviewInterface_clickApprove s window_fdc3 onApprove extractedData =
     (if approveDisabled extractedData then []
      else ReviewInterface_handleApprove s window_fdc3 onApprove extractedData)"

section \<open>The component \<^verbatim>\<open>App\<close>\<close>

record App_state =
  documentText :: jsstring
  extractedData :: "CreditAgreement option"
  isExtracting :: bool

text \<open>Lines 20--22.\<close>

definition App_initial :: App_state where
  "App_initial = \<lparr> documentText = [], extractedData = None, isExtracting = False \<rparr>"

text \<open>
  \<^verbatim>\<open>handleFileUpload\<close> (lines 24--31). The argument is the text of
  \<^verbatim>\<open>event.target.files?.[0]\<close>, \<open>None\<close> when the change event carries no file.
\<close>

definition handleFileUpload :: "jsstring option \<Rightarrow> App_state \<Rightarrow> App_state" where
  "handleFileUpload file s =
     (case file of
        None \<Rightarrow> s
      | Some text \<Rightarrow> s\<lparr> documentText := text, extractedData := None \<rparr>)"

text \<open>
  \<^verbatim>\<open>String.prototype.trim\<close> strips the code points of the ECMAScript productions
  WhiteSpace and LineTerminator from both ends. All of them are single code units.
\<close>

definition isWhiteSpace :: "16 word \<Rightarrow> bool" where
  "isWhiteSpace u \<longleftrightarrow>
     u \<in> {0x0009, 0x000A, 0x000B, 0x000C, 0x000D, 0x0020, 0x00A0, 0x1680,
          0x2000, 0x2001, 0x2002, 0x2003, 0x2004, 0x2005, 0x2006, 0x2007,
          0x2008, 0x2009, 0x200A, 0x2028, 0x2029, 0x202F, 0x205F, 0x3000, 0xFEFF}"

definition trim :: "jsstring \<Rightarrow> jsstring" where
  "trim t = rev (dropWhile isWhiteSpace (rev (dropWhile isWhiteSpace t)))"

text \<open>The sample agreement of the \<^verbatim>\<open>catch\<close> block (lines 53--68).\<close>

definition mockAgreement :: CreditAgreement where
  "mockAgreement =
     \<lparr> agreement_date = ''2023-10-15'',
       CreditAgreement.parties =
         [\<lparr> Party.name = ''ACME INDUSTRIES INC.'', role = ''Borrower'' \<rparr>,
          \<lparr> Party.name = ''GLOBAL BANK CORP.'', role = ''Lender'' \<rparr>],
       CreditAgreement.facilities =
         [\<lparr> facility_name = ''Term Loan Facility'',
            commitment_amount = \<lparr> Commitment.amount = 500000000, Commitment.currency = ''USD'' \<rparr>,
            maturity_date = ''2028-10-15'' \<rparr>],
       governing_law = ''State of New York'',
       extraction_status = Some ''success'' \<rparr>"

text \<open>
  What \<^verbatim>\<open>await fetch(...)\<close> and \<^verbatim>\<open>await response.json()\<close> can deliver. A parsed body
  either has a truthy \<^verbatim>\<open>agreement\<close> property or is taken as the agreement itself
  (\<^verbatim>\<open>result.agreement || result\<close>); the body \<^verbatim>\<open>null\<close> makes the property read throw.
  These are the answers whose agreement has the declared type; \<open>rt_body\<close> below has
  every JSON body.
\<close>

datatype body =
    NotJson
  | JsonNull
  | AgreementProperty CreditAgreement
  | AgreementItself CreditAgreement

datatype fetch_result =
    NetworkError
  | Response bool body    \<comment> \<open>\<^verbatim>\<open>response.ok\<close> and the body\<close>

text \<open>
  The \<^verbatim>\<open>try\<close> block after the \<^verbatim>\<open>fetch\<close> (lines 38--49): \<open>Inl\<close> is the error thrown,
  \<open>Inr\<close> the value handed to \<^verbatim>\<open>setExtractedData\<close>. The body is not read when
  \<^verbatim>\<open>response.ok\<close> is false.
\<close>

fun handleExtract_try :: "fetch_result \<Rightarrow> js_error + CreditAgreement" where
  "handleExtract_try NetworkError = Inl TypeError"
| "handleExtract_try (Response ok b) =
     (if \<not> ok then Inl (Error ''Extraction failed'')
      else case b of
             NotJson \<Rightarrow> Inl SyntaxError
           | JsonNull \<Rightarrow> Inl TypeError
           | AgreementProperty a \<Rightarrow> Inr a
           | AgreementItself a \<Rightarrow> Inr a)"

text \<open>
  \<^verbatim>\<open>handleExtract\<close> (lines 33--72) is an \<^verbatim>\<open>async\<close> function that is suspended at
  \<^verbatim>\<open>await fetch\<close>. \<open>handleExtract_begin\<close> is the part that runs when the function is
  called (lines 34--42), \<open>handleExtract_settle\<close> the part that runs when the request
  has settled (lines 44--71), on the state the component has by then. \<open>handleExtract\<close>
  is the two run back to back, with nothing in between.
\<close>

definition handleExtract_begin :: "App_state \<Rightarrow> App_state \<times> effect list" where
  "handleExtract_begin s =
     (if trim (documentText s) = [] then (s, [])
      else (s\<lparr> isExtracting := True \<rparr>, [Fetch (documentText s)]))"

definition handleExtract_settle :: "App_state \<Rightarrow> fetch_result \<Rightarrow> App_state \<times> effect list" where
  "handleExtract_settle s r =
     (case handleExtract_try r of
        Inr a \<Rightarrow> (s\<lparr> extractedData := Some a, isExtracting := False \<rparr>, [])
      | Inl e \<Rightarrow>
          (s\<lparr> extractedData := Some mockAgreement, isExtracting := False \<rparr>,
           [ConsoleError ''Extraction error:'' (LoggedError e)]))"

definition handleExtract :: "App_state \<Rightarrow> fetch_result \<Rightarrow> App_state \<times> effect list" where
  "handleExtract s r =
     (if trim (documentText s) = [] then (s, [])
      else (let (s1, sent) = handleExtract_begin s;
                (s2, logged) = handleExtract_settle s1 r
            in (s2, sent @ logged)))"

text \<open>The Extract button (lines 120--126).\<close>

definition extractDisabled :: "App_state \<Rightarrow> bool" where
  "extractDisabled s \<longleftrightarrow> trim (documentText s) = [] \<or> isExtracting s"

text \<open>\<^verbatim>\<open>handleApprove\<close> and \<^verbatim>\<open>handleReject\<close> of \<^verbatim>\<open>App\<close> (lines 74--84).\<close>

definition App_handleApprove :: "CreditAgreement \<Rightarrow> effect list" where
  "App_handleApprove d =
     [ConsoleLog ''Approved:'' (Some (LoggedAgreement d)),
      Alert ''Data approved and sent to staging area'']"

definition App_handleReject :: "string option \<Rightarrow> effect list" where
  "App_handleReject reason =
     [ConsoleLog ''Rejected:'' (Some (LoggedReason reason)),
      Alert (''Data rejected: '' @
        (case reason of
           None \<Rightarrow> ''No reason provided''
         | Some r \<Rightarrow> if r \<noteq> [] then r else ''No reason provided''))]"

text \<open>
  \<^verbatim>\<open>App\<close> renders \<^verbatim>\<open>ReviewInterface\<close> with its own \<^verbatim>\<open>extractedData\<close>,
  \<^verbatim>\<open>handleApprove\<close> and \<^verbatim>\<open>handleReject\<close> (lines 139--146).
\<close>

definition App_clickApprove :: "FDC3_state \<Rightarrow> DesktopAgent option \<Rightarrow> App_state \<Rightarrow> effect list" where
  "App_clickApprove h window_fdc3 s =
     ReviewInterface_clickApprove h window_fdc3 App_handleApprove (extractedData s)"

section \<open>The same code on the values it meets at run time\<close>

text \<open>
  The interfaces are erased at run time. \<^verbatim>\<open>handleExtract\<close> stores whatever
  \<^verbatim>\<open>response.json()\<close> returned, without a check, and \<^verbatim>\<open>ReviewInterface\<close> reads its
  properties as they are. The definitions of this section follow the same source lines
  as the ones above, on JSON values instead of records of the declared types; a value
  of the declared type is the JSON value that \<open>encode\<close> gives.

  A parsed JSON value; an object is the list of its properties, each key once. \<open>None\<close> is
  \<^verbatim>\<open>undefined\<close>, the value of a property that is not there.
\<close>

datatype json =
    JNull
  | JBool bool
  | JNumber real
  | JString string
  | JArray "json list"
  | JObject "(string \<times> json) list"

type_synonym jsvalue = "json option"

text \<open>\<^verbatim>\<open>!!v\<close>.\<close>

fun truthy :: "jsvalue \<Rightarrow> bool" where
  "truthy None = False"
| "truthy (Some JNull) = False"
| "truthy (Some (JBool b)) = b"
| "truthy (Some (JNumber x)) = (x \<noteq> 0)"
| "truthy (Some (JString s)) = (s \<noteq> [])"
| "truthy (Some (JArray xs)) = True"
| "truthy (Some (JObject kvs)) = True"

text \<open>
  \<^verbatim>\<open>v.k\<close> for a value that is neither \<^verbatim>\<open>null\<close> nor \<^verbatim>\<open>undefined\<close>. The program
  reads the properties \<^verbatim>\<open>agreement\<close>, \<^verbatim>\<open>agreement_date\<close>, \<^verbatim>\<open>parties\<close>,
  \<^verbatim>\<open>facilities\<close>, \<^verbatim>\<open>extraction_status\<close>, \<^verbatim>\<open>facility_name\<close>,
  \<^verbatim>\<open>commitment_amount\<close>, \<^verbatim>\<open>amount\<close> and \<^verbatim>\<open>currency\<close>; strings, numbers,
  booleans and arrays have none of them.
\<close>

fun property :: "json \<Rightarrow> string \<Rightarrow> jsvalue" where
  "property (JObject kvs) k = map_of kvs k"
| "property _ k = None"

text \<open>\<^verbatim>\<open>v.k\<close> for any value: reading a property of \<^verbatim>\<open>null\<close> or \<^verbatim>\<open>undefined\<close> throws.\<close>

definition readProperty :: "jsvalue \<Rightarrow> string \<Rightarrow> js_error + jsvalue" where
  "readProperty v k =
     (case v of
        None \<Rightarrow> Inl TypeError
      | Some JNull \<Rightarrow> Inl TypeError
      | Some j \<Rightarrow> Inr (property j k))"

text \<open>
  The object that the literal of \<^verbatim>\<open>handleApprove\<close> builds (ReviewInterface.tsx lines
  39--50). The literal fixes the keys; the values are what was read, \<^verbatim>\<open>undefined\<close>
  included. \<open>WireFacility\<close> holds \<^verbatim>\<open>name\<close>, \<^verbatim>\<open>amount\<close>, \<^verbatim>\<open>currency\<close>; \<open>WireLoan\<close>
  holds \<^verbatim>\<open>agreementDate\<close>, \<^verbatim>\<open>parties\<close>, \<^verbatim>\<open>facilities\<close>; \<open>WireContext\<close> holds
  \<^verbatim>\<open>type\<close> and \<^verbatim>\<open>loan\<close>.
\<close>

datatype wire_facility = WireFacility jsvalue jsvalue jsvalue

datatype wire_loan = WireLoan jsvalue jsvalue "wire_facility list option"

datatype wire_context = WireContext string wire_loan

text \<open>The arrow function of lines 44--48, applied to one element of the array.\<close>

definition facilityEntry :: "json \<Rightarrow> js_error + wire_facility" where
  "facilityEntry f =
     (case readProperty (Some f) ''facility_name'' of
        Inl e \<Rightarrow> Inl e
      | Inr n \<Rightarrow>
     (case readProperty (Some f) ''commitment_amount'' of
        Inl e \<Rightarrow> Inl e
      | Inr commitment \<Rightarrow>
     (case readProperty commitment ''amount'' of
        Inl e \<Rightarrow> Inl e
      | Inr a \<Rightarrow>
     (case readProperty commitment ''currency'' of
        Inl e \<Rightarrow> Inl e
      | Inr c \<Rightarrow> Inr (WireFacility n a c)))))"

text \<open>\<^verbatim>\<open>Array.prototype.map\<close> with that function: the first element that throws ends it.\<close>

fun mapFacilities :: "json list \<Rightarrow> js_error + wire_facility list" where
  "mapFacilities [] = Inr []"
| "mapFacilities (f # fs) =
     (case facilityEntry f of
        Inl e \<Rightarrow> Inl e
      | Inr x \<Rightarrow>
          (case mapFacilities fs of
             Inl e \<Rightarrow> Inl e
           | Inr xs \<Rightarrow> Inr (x # xs)))"

text \<open>
  \<^verbatim>\<open>extractedData.facilities?.map(...)\<close>: \<^verbatim>\<open>undefined\<close> when \<^verbatim>\<open>facilities\<close> is
  \<^verbatim>\<open>undefined\<close> or \<^verbatim>\<open>null\<close>; a \<^verbatim>\<open>TypeError\<close> when it is anything else that is not an
  array, since such a value has no function \<^verbatim>\<open>map\<close>.
\<close>

definition optionalMap :: "jsvalue \<Rightarrow> js_error + wire_facility list option" where
  "optionalMap v =
     (case v of
        None \<Rightarrow> Inr None
      | Some JNull \<Rightarrow> Inr None
      | Some (JArray fs) \<Rightarrow>
          (case mapFacilities fs of Inl e \<Rightarrow> Inl e | Inr xs \<Rightarrow> Inr (Some xs))
      | Some _ \<Rightarrow> Inl TypeError)"

definition rt_toWireContext :: "json \<Rightarrow> js_error + wire_context" where
  "rt_toWireContext d =
     (case optionalMap (property d ''facilities'') of
        Inl e \<Rightarrow> Inl e
      | Inr fs \<Rightarrow>
          Inr (WireContext ''fdc3.creditnexus.loan''
                 (WireLoan (property d ''agreement_date'')
                           (property d ''parties'')
                           fs)))"



text \<open>
  Line 70, and the \<^verbatim>\<open>disabled\<close> of the Approve button (lines 199--205): the value of
  \<^verbatim>\<open>!extractedData || !isSuccess\<close>.
\<close>

definition rt_isSuccess :: "json \<Rightarrow> bool" where
  "rt_isSuccess d \<longleftrightarrow>
     property d ''extraction_status'' = Some (JString ''success'')
     \<or> \<not> truthy (property d ''extraction_status'')"

definition rt_approveDisabled :: "jsvalue \<Rightarrow> bool" where
  "rt_approveDisabled v =
     (case v of
        None \<Rightarrow> True
      | Some d \<Rightarrow> \<not> truthy (Some d) \<or> \<not> rt_isSuccess d)"

text \<open>The JSON value of a value of the declared type; the key of an unset status is left out.\<close>

definition encodeParty :: "Party \<Rightarrow> json" where
  "encodeParty p = JObject [(''name'', JString (Party.name p)), (''role'', JString (role p))]"

definition encodeFacility :: "Facility \<Rightarrow> json" where
  "encodeFacility f =
     JObject [(''facility_name'', JString (facility_name f)),
              (''commitment_amount'',
                 JObject [(''amount'', JNumber (Commitment.amount (commitment_amount f))),
                          (''currency'', JString (Commitment.currency (commitment_amount f)))]),
              (''maturity_date'', JString (maturity_date f))]"

definition encode :: "CreditAgreement \<Rightarrow> json" where
  "encode d =
     JObject ([(''agreement_date'', JString (agreement_date d)),
               (''parties'', JArray (map encodeParty (CreditAgreement.parties d))),
               (''facilities'', JArray (map encodeFacility (CreditAgreement.facilities d))),
               (''governing_law'', JString (governing_law d))]
              @ (case extraction_status d of
                   None \<Rightarrow> []
                 | Some status \<Rightarrow> [(''extraction_status'', JString status)]))"

text \<open>The object of a context of the declared type.\<close>

definition encodeLoanFacility :: "LoanFacility \<Rightarrow> wire_facility" where
  "encodeLoanFacility f =
     WireFacility (Some (JString (name f))) (Some (JNumber (amount f))) (Some (JString (currency f)))"

definition encodeLoan :: "Loan \<Rightarrow> wire_loan" where
  "encodeLoan l =
     WireLoan (map_option JString (agreementDate l))
              (map_option (\<lambda>ps. JArray (map encodeParty ps)) (parties l))
              (map_option (map encodeLoanFacility) (facilities l))"

text \<open>
  \<^verbatim>\<open>handleExtract\<close> (App.tsx lines 33--72). The body of a response either fails to
  parse or is a JSON value, of any shape.
\<close>

datatype rt_body = RtNotJson | RtJson json

datatype rt_fetch_result =
    RtNetworkError
  | RtResponse bool rt_body

record rt_App_state =
  rt_documentText :: jsstring
  rt_extractedData :: jsvalue
  rt_isExtracting :: bool

text \<open>
  The \<^verbatim>\<open>try\<close> block (lines 38--49). \<^verbatim>\<open>result.agreement || result\<close> throws for the
  body \<^verbatim>\<open>null\<close>, gives the property \<^verbatim>\<open>agreement\<close> when that is truthy, and the body
  itself otherwise.
\<close>

fun rt_handleExtract_try :: "rt_fetch_result \<Rightarrow> js_error + json" where
  "rt_handleExtract_try RtNetworkError = Inl TypeError"
| "rt_handleExtract_try (RtResponse ok b) =
     (if \<not> ok then Inl (Error ''Extraction failed'')
      else case b of
             RtNotJson \<Rightarrow> Inl SyntaxError
           | RtJson result \<Rightarrow>
               (case readProperty (Some result) ''agreement'' of
                  Inl e \<Rightarrow> Inl e
                | Inr agreement \<Rightarrow>
                    (case agreement of
                       None \<Rightarrow> Inr result
                     | Some a \<Rightarrow> if truthy (Some a) then Inr a else Inr result)))"

definition rt_handleExtract_begin :: "rt_App_state \<Rightarrow> rt_App_state \<times> effect list" where
  "rt_handleExtract_begin s =
     (if trim (rt_documentText s) = [] then (s, [])
      else (s\<lparr> rt_isExtracting := True \<rparr>, [Fetch (rt_documentText s)]))"

definition rt_handleExtract_settle ::
  "rt_App_state \<Rightarrow> rt_fetch_result \<Rightarrow> rt_App_state \<times> effect list" where
  "rt_handleExtract_settle s r =
     (case rt_handleExtract_try r of
        Inr v \<Rightarrow> (s\<lparr> rt_extractedData := Some v, rt_isExtracting := False \<rparr>, [])
      | Inl e \<Rightarrow>
          (s\<lparr> rt_extractedData := Some (encode mockAgreement), rt_isExtracting := False \<rparr>,
           [ConsoleError ''Extraction error:'' (LoggedError e)]))"

definition rt_handleExtract :: "rt_App_state \<Rightarrow> rt_fetch_result \<Rightarrow> rt_App_state \<times> effect list" where
  "rt_handleExtract s r =
     (if trim (rt_documentText s) = [] then (s, [])
      else (let (s1, sent) = rt_handleExtract_begin s;
                (s2, logged) = rt_handleExtract_settle s1 r
            in (s2, sent @ logged)))"

text \<open>A state and an answer of the declared types, as the values they are at run time.\<close>

definition rt_state :: "App_state \<Rightarrow> rt_App_state" where
  "rt_state s =
     \<lparr> rt_documentText = documentText s,
       rt_extractedData = map_option encode (extractedData s),
       rt_isExtracting = isExtracting s \<rparr>"

fun rt_result :: "fetch_result \<Rightarrow> rt_fetch_result" where
  "rt_result NetworkError = RtNetworkError"
| "rt_result (Response ok NotJson) = RtResponse ok RtNotJson"
| "rt_result (Response ok JsonNull) = RtResponse ok (RtJson JNull)"
| "rt_result (Response ok (AgreementProperty a)) = RtResponse ok (RtJson (JObject [(''agreement'', encode a)]))"
| "rt_result (Response ok (AgreementItself a)) = RtResponse ok (RtJson (encode a))"

section \<open>Reading a trace\<close>

text \<open>The contexts that reached the desktop agent, in order.\<close>

fun broadcasts :: "effect list \<Rightarrow> CreditNexusLoanContext list" where
  "broadcasts [] = []"
| "broadcasts (Fdc3Broadcast c # es) = c # broadcasts es"
| "broadcasts (_ # es) = broadcasts es"

section \<open>Sample inputs\<close>

text \<open>Two document texts, \<^verbatim>\<open>Loan\<close> and \<^verbatim>\<open>Lease\<close>, as code units.\<close>

definition sampleDocument :: jsstring where
  "sampleDocument = [0x4C, 0x6F, 0x61, 0x6E]"

definition otherDocument :: jsstring where
  "otherDocument = [0x4C, 0x65, 0x61, 0x73, 0x65]"

text \<open>An agreement as the extraction endpoint may return it, without \<^verbatim>\<open>extraction_status\<close>.\<close>

definition sampleAgreement :: CreditAgreement where
  "sampleAgreement =
     \<lparr> agreement_date = ''2021-03-01'',
       CreditAgreement.parties = [\<lparr> Party.name = ''NORTH MILLS LTD'', role = ''Borrower'' \<rparr>],
       CreditAgreement.facilities =
         [\<lparr> facility_name = ''Revolving Facility'',
            commitment_amount = \<lparr> Commitment.amount = 7500000, Commitment.currency = ''EUR'' \<rparr>,
            maturity_date = ''2026-03-01'' \<rparr>],
       governing_law = ''England and Wales'',
       extraction_status = None \<rparr>"

text \<open>A desktop agent that accepts every broadcast, and one that rejects every broadcast.\<close>

definition acceptingAgent :: DesktopAgent where
  "acceptingAgent c = Fulfilled"

definition rejectingAgent :: DesktopAgent where
  "rejectingAgent c = RejectedWith (Error ''denied'')"

text \<open>
  The state of \<^verbatim>\<open>App\<close> after \<^verbatim>\<open>Loan\<close> has been loaded and its extraction has
  answered with the agreement \<open>d\<close>.
\<close>

definition reviewState :: "CreditAgreement \<Rightarrow> App_state" where
  "reviewState d =
     fst (handleExtract (handleFileUpload (Some sampleDocument) App_initial)
            (Response True (AgreementItself d)))"

text \<open>
  The state of \<^verbatim>\<open>App\<close> after: \<^verbatim>\<open>Loan\<close> is loaded; Extract is clicked; \<^verbatim>\<open>Lease\<close> is
  loaded while the request is under way; the request is answered with \<open>sampleAgreement\<close>.
\<close>

definition staleState :: App_state where
  "staleState =
     fst (handleExtract_settle
           (handleFileUpload (Some otherDocument)
             (fst (handleExtract_begin (handleFileUpload (Some sampleDocument) App_initial))))
           (Response True (AgreementItself sampleAgreement)))"


text \<open>The state of \<^verbatim>\<open>App\<close> at run time after \<^verbatim>\<open>Loan\<close> has been loaded.\<close>

definition loadedState :: rt_App_state where
  "loadedState = rt_state (handleFileUpload (Some sampleDocument) App_initial)"

section \<open>Basic facts\<close>

text \<open>\<^verbatim>\<open>!documentText.trim()\<close> holds exactly for a text made of white space only.\<close>

lemma trim_Nil_iff: "trim t = [] \<longleftrightarrow> (\<forall>u\<in>set t. isWhiteSpace u)"
proof
  assume "trim t = []"
  then have all: "\<forall>u\<in>set (dropWhile isWhiteSpace t). isWhiteSpace u"
    by (simp add: trim_def)
  have "dropWhile isWhiteSpace t = []"
  proof (rule ccontr)
    assume ne: "dropWhile isWhiteSpace t \<noteq> []"
    then have "\<not> isWhiteSpace (hd (dropWhile isWhiteSpace t))"
      by (rule hd_dropWhile)
    moreover from ne have "hd (dropWhile isWhiteSpace t) \<in> set (dropWhile isWhiteSpace t)"
      by (rule hd_in_set)
    ultimately show False using all by blast
  qed
  then show "\<forall>u\<in>set t. isWhiteSpace u"
    by (simp only: dropWhile_eq_Nil_conv)
next
  assume "\<forall>u\<in>set t. isWhiteSpace u"
  then show "trim t = []"
    by (auto simp: trim_def dest: set_dropWhileD)
qed

lemma handleExtract_begin_sends:
  assumes "\<exists>u\<in>set (documentText s). \<not> isWhiteSpace u"
  shows "handleExtract_begin s = (s\<lparr> isExtracting := True \<rparr>, [Fetch (documentText s)])"
  using assms by (auto simp add: handleExtract_begin_def trim_Nil_iff)

text \<open>The requests that throw inside the \<^verbatim>\<open>try\<close> block.\<close>

lemma handleExtract_try_Inl_iff:
  "(\<exists>e. handleExtract_try r = Inl e) \<longleftrightarrow>
     r = NetworkError \<or> (\<exists>b. r = Response False b)
     \<or> r = Response True NotJson \<or> r = Response True JsonNull"
proof (cases r)
  case NetworkError
  then show ?thesis by simp
next
  case (Response ok b)
  then show ?thesis by (cases b) auto
qed

lemma extractedData_reviewState: "extractedData (reviewState d) = Some d"
  by (simp add: reviewState_def handleExtract_def handleExtract_begin_def handleExtract_settle_def
      handleFileUpload_def sampleDocument_def trim_def isWhiteSpace_def)

lemma isAvailable_mounted: "isAvailable (mounted w) \<longleftrightarrow> w \<noteq> None"
  by (simp add: mounted_def useFDC3_effect_def Let_def)

lemma broadcast_agent:
  "isAvailable s \<Longrightarrow> broadcast s (Some agent) c =
     ([Fdc3Broadcast c],
      case agent c of
        Fulfilled \<Rightarrow> [ConsoleLog ''[FDC3] Broadcast successful:'' (Some (LoggedContext c))]
      | RejectedWith e \<Rightarrow> [ConsoleError ''[FDC3] Broadcast failed:'' (LoggedError e)])"
  by (simp add: broadcast_def)

lemma broadcast_mock:
  "\<not> isAvailable s \<or> w = None \<Longrightarrow>
   broadcast s w c = ([ConsoleLog ''[FDC3 Mock] Would broadcast:'' (Some (LoggedContext c))], [])"
  by (auto simp add: broadcast_def)

lemma broadcast_now_not_Nil: "fst (broadcast s w c) \<noteq> []"
  by (simp add: broadcast_def split: option.splits)

lemma broadcastAll_mock:
  "\<not> isAvailable s \<Longrightarrow>
   broadcastAll s calls =
     map (\<lambda>(w, c). ConsoleLog ''[FDC3 Mock] Would broadcast:'' (Some (LoggedContext c))) calls"
  by (induction calls) (auto simp add: broadcast_mock)

lemma broadcasts_append: "broadcasts (xs @ ys) = broadcasts xs @ broadcasts ys"
  by (induction xs rule: broadcasts.induct) simp_all

lemma broadcasts_App_handleApprove: "broadcasts (App_handleApprove d) = []"
  by (simp add: App_handleApprove_def)

lemma broadcasts_settled: "broadcasts (snd (broadcast s w c)) = []"
  by (simp add: broadcast_def split: option.splits outcome.splits)

lemma broadcasts_now:
  "broadcasts (fst (broadcast s w c)) = (if isAvailable s \<and> w \<noteq> None then [c] else [])"
  by (simp add: broadcast_def split: option.splits)

lemma handleApprove_Some:
  "ReviewInterface_handleApprove s w onApprove (Some d) =
     fst (broadcast s w (toWireContext d)) @ onApprove d @ snd (broadcast s w (toWireContext d))"
  by (simp add: ReviewInterface_handleApprove_def split: prod.splits)

lemma broadcasts_handleApprove:
  "broadcasts (ReviewInterface_handleApprove s w App_handleApprove (Some d)) =
     (if isAvailable s \<and> w \<noteq> None then [toWireContext d] else [])"
  by (simp add: handleApprove_Some broadcasts_append broadcasts_App_handleApprove
      broadcasts_settled broadcasts_now)

lemma clickApprove_enabled:
  "isSuccess d \<Longrightarrow> ReviewInterface_clickApprove h w onApprove (Some d) =
     ReviewInterface_handleApprove h w onApprove (Some d)"
  by (simp add: ReviewInterface_clickApprove_def approveDisabled_def)

lemma clickApprove_disabled:
  "\<not> isSuccess d \<Longrightarrow> ReviewInterface_clickApprove h w onApprove (Some d) = []"
  by (simp add: ReviewInterface_clickApprove_def approveDisabled_def)

lemma clickApprove_None: "ReviewInterface_clickApprove h w onApprove None = []"
  by (simp add: ReviewInterface_clickApprove_def approveDisabled_def)

text \<open>
  The code on run-time values agrees with the code on the declared types, wherever the
  stored value has the declared type.
\<close>

lemma readProperty_encode: "readProperty (Some (encode d)) k = Inr (property (encode d) k)"
  by (simp add: readProperty_def encode_def)

lemma property_encode:
  "property (encode d) ''agreement_date'' = Some (JString (agreement_date d))"
  "property (encode d) ''parties'' = Some (JArray (map encodeParty (CreditAgreement.parties d)))"
  "property (encode d) ''facilities'' = Some (JArray (map encodeFacility (CreditAgreement.facilities d)))"
  "property (encode d) ''extraction_status'' = map_option JString (extraction_status d)"
  "property (encode d) ''agreement'' = None"
  by (simp_all add: encode_def split: option.splits)

lemma truthy_encode: "truthy (Some (encode d))"
  by (simp add: encode_def)

lemma mapFacilities_encode:
  "mapFacilities (map encodeFacility fs) =
     Inr (map (\<lambda>f. WireFacility (Some (JString (facility_name f)))
                     (Some (JNumber (Commitment.amount (commitment_amount f))))
                     (Some (JString (Commitment.currency (commitment_amount f))))) fs)"
  by (induction fs) (simp_all add: facilityEntry_def readProperty_def encodeFacility_def)

lemma rt_toWireContext_encode:
  "rt_toWireContext (encode d) =
     Inr (WireContext ''fdc3.creditnexus.loan''
       (WireLoan (Some (JString (agreement_date d)))
                 (Some (JArray (map encodeParty (CreditAgreement.parties d))))
                 (Some (map (\<lambda>f. WireFacility (Some (JString (facility_name f)))
                        (Some (JNumber (Commitment.amount (commitment_amount f))))
                        (Some (JString (Commitment.currency (commitment_amount f)))))
                      (CreditAgreement.facilities d)))))"
  by (simp add: rt_toWireContext_def property_encode optionalMap_def mapFacilities_encode)

lemma rt_toWireContext_refines:
  "\<exists>l. loan (toWireContext d) = Some l
     \<and> rt_toWireContext (encode d) = Inr (WireContext (type (toWireContext d)) (encodeLoan l))"
  by (simp add: rt_toWireContext_encode toWireContext_def encodeLoan_def encodeLoanFacility_def
      comp_def)

lemma rt_isSuccess_encode: "rt_isSuccess (encode d) \<longleftrightarrow> isSuccess d"
  by (cases "extraction_status d") (auto simp add: rt_isSuccess_def isSuccess_def property_encode)


lemma rt_approveDisabled_refines:
  "rt_approveDisabled (map_option encode v) \<longleftrightarrow> approveDisabled v"
  by (cases v) (simp_all add: rt_approveDisabled_def approveDisabled_def truthy_encode
      rt_isSuccess_encode)


lemma rt_handleExtract_settle_encode:
  "rt_handleExtract_settle (rt_state s) (rt_result r) =
     (rt_state (fst (handleExtract_settle s r)), snd (handleExtract_settle s r))"
proof (cases r)
  case NetworkError
  then show ?thesis
    by (simp add: rt_handleExtract_settle_def handleExtract_settle_def rt_state_def)
next
  case (Response ok b)
  then show ?thesis
    by (cases b)
      (simp_all add: rt_handleExtract_settle_def handleExtract_settle_def rt_state_def
        readProperty_encode property_encode truthy_encode,
        simp_all add: readProperty_def truthy_encode)
qed

lemma rt_handleExtract_nonblank:
  "trim (rt_documentText s) \<noteq> [] \<Longrightarrow>
   rt_handleExtract s r =
     (fst (rt_handleExtract_settle s r),
      Fetch (rt_documentText s) # snd (rt_handleExtract_settle s r))"
  by (simp add: rt_handleExtract_def rt_handleExtract_begin_def rt_handleExtract_settle_def
      split: sum.splits)

lemma trim_loadedState: "trim (rt_documentText loadedState) \<noteq> []"
  by (simp add: loadedState_def rt_state_def handleFileUpload_def sampleDocument_def
      trim_def isWhiteSpace_def)

lemma loadedState_eq:
  "loadedState =
     \<lparr> rt_documentText = sampleDocument, rt_extractedData = None, rt_isExtracting = False \<rparr>"
  by (simp add: loadedState_def rt_state_def handleFileUpload_def App_initial_def)

text \<open>No \<^verbatim>\<open>broadcast\<close> subscribes to anything.\<close>

lemma no_subscription_in_broadcast:
  "Fdc3AddContextListener t \<notin> set (fst (broadcast s w c) @ snd (broadcast s w c))"
  by (simp add: broadcast_def split: option.splits outcome.splits)

lemma no_subscription_in_broadcastAll:
  "Fdc3AddContextListener t \<notin> set (broadcastAll s calls)"
proof (induction calls)
  case Nil
  then show ?case by simp
next
  case (Cons a calls)
  obtain w c where a: "a = (w, c)" by (cases a)
  from no_subscription_in_broadcast [of t s w c] Cons a show ?case by simp
qed

section \<open>The mapping to the wire context\<close>

text \<open>
  Claim C4. The context built from an agreement carries the agreement date, the parties
  as they are (every name and role, in order), and one wire facility for each facility,
  in order, holding its \<^verbatim>\<open>facility_name\<close> as \<^verbatim>\<open>name\<close> and the amount and currency of
  its \<^verbatim>\<open>commitment_amount\<close>. When the agent is in use, this context is the one and only
  context that \<^verbatim>\<open>handleApprove\<close> broadcasts.
\<close>

theorem toWireContext_preserves:
  "\<exists>l fs. loan (toWireContext d) = Some l
     \<and> agreementDate l = Some (agreement_date d)
     \<and> parties l = Some (CreditAgreement.parties d)
     \<and> facilities l = Some fs
     \<and> length fs = length (CreditAgreement.facilities d)
     \<and> (\<forall>i < length (CreditAgreement.facilities d).
          name (fs ! i) = facility_name (CreditAgreement.facilities d ! i)
          \<and> amount (fs ! i) = Commitment.amount (commitment_amount (CreditAgreement.facilities d ! i))
          \<and> currency (fs ! i) = Commitment.currency (commitment_amount (CreditAgreement.facilities d ! i)))
     \<and> (isAvailable s \<longrightarrow>
          broadcasts (ReviewInterface_handleApprove s (Some agent) App_handleApprove (Some d))
            = [toWireContext d])"
  by (simp add: toWireContext_def broadcasts_handleApprove)

theorem toWireContext_preserves_witness:
  "\<exists>l fs. loan (toWireContext mockAgreement) = Some l
     \<and> agreementDate l = Some ''2023-10-15''
     \<and> parties l = Some [\<lparr> Party.name = ''ACME INDUSTRIES INC.'', role = ''Borrower'' \<rparr>,
                          \<lparr> Party.name = ''GLOBAL BANK CORP.'', role = ''Lender'' \<rparr>]
     \<and> facilities l = Some fs
     \<and> length fs = 1
     \<and> name (fs ! 0) = ''Term Loan Facility''
     \<and> amount (fs ! 0) = 500000000
     \<and> currency (fs ! 0) = ''USD''
     \<and> broadcasts (ReviewInterface_handleApprove (mounted (Some acceptingAgent))
          (Some acceptingAgent) App_handleApprove (Some mockAgreement)) = [toWireContext mockAgreement]"
proof -
  from toWireContext_preserves [of mockAgreement "mounted (Some acceptingAgent)" acceptingAgent]
  obtain l fs where
    l: "loan (toWireContext mockAgreement) = Some l"
    and d: "agreementDate l = Some (agreement_date mockAgreement)"
    and p: "parties l = Some (CreditAgreement.parties mockAgreement)"
    and f: "facilities l = Some fs"
    and n: "length fs = length (CreditAgreement.facilities mockAgreement)"
    and e: "\<forall>i < length (CreditAgreement.facilities mockAgreement).
          name (fs ! i) = facility_name (CreditAgreement.facilities mockAgreement ! i)
          \<and> amount (fs ! i) = Commitment.amount (commitment_amount (CreditAgreement.facilities mockAgreement ! i))
          \<and> currency (fs ! i) = Commitment.currency (commitment_amount (CreditAgreement.facilities mockAgreement ! i))"
    and b: "isAvailable (mounted (Some acceptingAgent)) \<longrightarrow>
          broadcasts (ReviewInterface_handleApprove (mounted (Some acceptingAgent))
            (Some acceptingAgent) App_handleApprove (Some mockAgreement)) = [toWireContext mockAgreement]"
    by blast
  have z: "0 < length (CreditAgreement.facilities mockAgreement)"
    by (simp add: mockAgreement_def)
  from e z have
    "name (fs ! 0) = facility_name (CreditAgreement.facilities mockAgreement ! 0)
     \<and> amount (fs ! 0) = Commitment.amount (commitment_amount (CreditAgreement.facilities mockAgreement ! 0))
     \<and> currency (fs ! 0) = Commitment.currency (commitment_amount (CreditAgreement.facilities mockAgreement ! 0))"
    by blast
  moreover from b have
    "broadcasts (ReviewInterface_handleApprove (mounted (Some acceptingAgent))
       (Some acceptingAgent) App_handleApprove (Some mockAgreement)) = [toWireContext mockAgreement]"
    by (simp add: isAvailable_mounted)
  ultimately show ?thesis using l d p f n
    by (simp add: mockAgreement_def)
qed




section \<open>The adapter\<close>

text \<open>
  Claim C6. When the capability is absent (the hook's \<^verbatim>\<open>isAvailable\<close> is false, or
  \<^verbatim>\<open>window.fdc3\<close> is missing), \<^verbatim>\<open>broadcast\<close> logs the context it was given under
  \<^verbatim>\<open>[FDC3 Mock] Would broadcast:\<close> and does nothing else, now or later: no context
  reaches an agent, even if one is there. Nothing is thrown, and \<^verbatim>\<open>handleApprove\<close>
  goes on to call \<^verbatim>\<open>onApprove\<close>.
\<close>

theorem broadcast_mock_mode:
  assumes "\<not> isAvailable s \<or> w = None"
  shows "broadcast s w c = ([ConsoleLog ''[FDC3 Mock] Would broadcast:'' (Some (LoggedContext c))], [])
    \<and> broadcasts (fst (broadcast s w c) @ snd (broadcast s w c)) = []
    \<and> ReviewInterface_handleApprove s w onApprove (Some d) =
        ConsoleLog ''[FDC3 Mock] Would broadcast:'' (Some (LoggedContext (toWireContext d))) # onApprove d"
  using assms by (simp add: handleApprove_Some broadcast_mock)

theorem broadcast_mock_mode_witness:
  "\<not> isAvailable (mounted None)
   \<and> broadcast (mounted None) (Some acceptingAgent) (toWireContext mockAgreement) =
       ([ConsoleLog ''[FDC3 Mock] Would broadcast:'' (Some (LoggedContext (toWireContext mockAgreement)))], [])
   \<and> ReviewInterface_handleApprove (mounted None) None App_handleApprove (Some mockAgreement) =
       [ConsoleLog ''[FDC3 Mock] Would broadcast:'' (Some (LoggedContext (toWireContext mockAgreement))),
        ConsoleLog ''Approved:'' (Some (LoggedAgreement mockAgreement)),
        Alert ''Data approved and sent to staging area'']"
proof -
  have h: "\<not> isAvailable (mounted None)"
    by (simp add: isAvailable_mounted)
  then have h1: "\<not> isAvailable (mounted None) \<or> Some acceptingAgent = None"
    and h2: "\<not> isAvailable (mounted None) \<or> (None :: DesktopAgent option) = None"
    by simp_all
  from broadcast_mock_mode [OF h1, of "toWireContext mockAgreement"]
    broadcast_mock_mode [OF h2, of _ App_handleApprove mockAgreement] h
  show ?thesis by (simp add: App_handleApprove_def)
qed

text \<open>
  With an agent that rejects the broadcast, \<^verbatim>\<open>handleApprove\<close> still calls
  \<^verbatim>\<open>onApprove\<close>, and \<^verbatim>\<open>App\<close> reports the data as approved and sent; the rejection only
  reaches the console, afterwards. What \<^verbatim>\<open>broadcast\<close> does before it returns is the same
  as with an agent that accepts.
\<close>

theorem publish_rejection_counterexample:
  "ReviewInterface_handleApprove (mounted (Some rejectingAgent)) (Some rejectingAgent)
       App_handleApprove (Some mockAgreement)
     = [Fdc3Broadcast (toWireContext mockAgreement),
        ConsoleLog ''Approved:'' (Some (LoggedAgreement mockAgreement)),
        Alert ''Data approved and sent to staging area'',
        ConsoleError ''[FDC3] Broadcast failed:'' (LoggedError (Error ''denied''))]
   \<and> fst (broadcast (mounted (Some rejectingAgent)) (Some rejectingAgent) (toWireContext mockAgreement))
       = fst (broadcast (mounted (Some acceptingAgent)) (Some acceptingAgent) (toWireContext mockAgreement))"
  by (simp add: handleApprove_Some broadcast_agent isAvailable_mounted rejectingAgent_def
      acceptingAgent_def App_handleApprove_def)

text \<open>
  Claim C5, amended. When the capability is present and the agent rejects a broadcast,
  \<^verbatim>\<open>broadcast\<close> hands the context to the agent and returns; once the promise is
  rejected it writes \<^verbatim>\<open>[FDC3] Broadcast failed:\<close> and the error to the error console.
  The caller is given nothing: \<^verbatim>\<open>handleApprove\<close> calls \<^verbatim>\<open>onApprove\<close> right after
  \<^verbatim>\<open>broadcast\<close> has returned, whatever becomes of the broadcast.
\<close>

theorem publish_rejection_logged:
  assumes "isAvailable s" and "agent (toWireContext d) = RejectedWith e"
  shows "broadcast s (Some agent) (toWireContext d) =
           ([Fdc3Broadcast (toWireContext d)],
            [ConsoleError ''[FDC3] Broadcast failed:'' (LoggedError e)])
         \<and> ReviewInterface_handleApprove s (Some agent) onApprove (Some d) =
             Fdc3Broadcast (toWireContext d) # onApprove d
               @ [ConsoleError ''[FDC3] Broadcast failed:'' (LoggedError e)]"
  using assms by (simp add: handleApprove_Some broadcast_agent)

theorem publish_rejection_logged_witness:
  "isAvailable (mounted (Some rejectingAgent))
   \<and> rejectingAgent (toWireContext sampleAgreement) = RejectedWith (Error ''denied'')
   \<and> broadcast (mounted (Some rejectingAgent)) (Some rejectingAgent) (toWireContext sampleAgreement) =
       ([Fdc3Broadcast (toWireContext sampleAgreement)],
        [ConsoleError ''[FDC3] Broadcast failed:'' (LoggedError (Error ''denied''))])"
proof -
  have h: "isAvailable (mounted (Some rejectingAgent))"
    by (simp add: isAvailable_mounted)
  have r: "rejectingAgent (toWireContext sampleAgreement) = RejectedWith (Error ''denied'')"
    by (simp add: rejectingAgent_def)
  from publish_rejection_logged [where s = "mounted (Some rejectingAgent)" and agent = rejectingAgent
      and d = sampleAgreement and e = "Error ''denied''", OF h r] h r
  show ?thesis by blast
qed

text \<open>
  A hook that has cached \<^verbatim>\<open>isAvailable = true\<close> still reads \<^verbatim>\<open>window.fdc3\<close> at every
  \<^verbatim>\<open>broadcast\<close>: with the same cached value, the call goes to the agent when the host
  shows one and to the mock log when it shows none.
\<close>

theorem broadcast_reprobes_counterexample:
  "isAvailable (mounted (Some acceptingAgent))
   \<and> fst (broadcast (mounted (Some acceptingAgent)) (Some acceptingAgent) (toWireContext mockAgreement))
       = [Fdc3Broadcast (toWireContext mockAgreement)]
   \<and> fst (broadcast (mounted (Some acceptingAgent)) None (toWireContext mockAgreement))
       = [ConsoleLog ''[FDC3 Mock] Would broadcast:'' (Some (LoggedContext (toWireContext mockAgreement)))]"
  by (simp add: isAvailable_mounted broadcast_agent broadcast_mock)

text \<open>
  Claim C8, amended. The capability is computed when the hook mounts, true exactly when
  the host shows an agent, and kept in the hook's state, which no \<^verbatim>\<open>broadcast\<close>
  writes. Mounting subscribes once to \<^verbatim>\<open>fdc3.creditnexus.loan\<close> when there is an
  agent, and only logs that mock mode is in use when there is none; no \<^verbatim>\<open>broadcast\<close>
  ever subscribes. A \<^verbatim>\<open>broadcast\<close> hands its context to the agent, and logs the
  outcome, exactly when the cached value is true and \<^verbatim>\<open>window.fdc3\<close> is present at the
  call; otherwise it only logs the context. So when the cached value is false, every
  later \<^verbatim>\<open>broadcast\<close> only logs, whatever the host shows by then.
\<close>

theorem capability_cached_at_mount:
  "useFDC3_effect w0 s =
     (s\<lparr> isAvailable := (w0 \<noteq> None) \<rparr>,
      if w0 \<noteq> None then [Fdc3AddContextListener ''fdc3.creditnexus.loan'']
      else [ConsoleLog ''[FDC3 Mock] FDC3 not available, using mock mode'' None])
   \<and> mounted w0 = \<lparr> isAvailable = (w0 \<noteq> None), context' = None \<rparr>
   \<and> (isAvailable s \<longrightarrow>
        broadcast s (Some agent) c =
          ([Fdc3Broadcast c],
           case agent c of
             Fulfilled \<Rightarrow> [ConsoleLog ''[FDC3] Broadcast successful:'' (Some (LoggedContext c))]
           | RejectedWith e \<Rightarrow> [ConsoleError ''[FDC3] Broadcast failed:'' (LoggedError e)]))
   \<and> (\<not> isAvailable s \<or> w = None \<longrightarrow>
        broadcast s w c =
          ([ConsoleLog ''[FDC3 Mock] Would broadcast:'' (Some (LoggedContext c))], []))
   \<and> (\<not> isAvailable s \<longrightarrow>
        broadcastAll s calls =
          map (\<lambda>(w, c). ConsoleLog ''[FDC3 Mock] Would broadcast:'' (Some (LoggedContext c))) calls)
   \<and> Fdc3AddContextListener t \<notin> set (broadcastAll s calls)"
proof -
  have "useFDC3_effect w0 s =
     (s\<lparr> isAvailable := (w0 \<noteq> None) \<rparr>,
      if w0 \<noteq> None then [Fdc3AddContextListener ''fdc3.creditnexus.loan'']
      else [ConsoleLog ''[FDC3 Mock] FDC3 not available, using mock mode'' None])"
    by (simp add: useFDC3_effect_def Let_def)
  moreover have "mounted w0 = \<lparr> isAvailable = (w0 \<noteq> None), context' = None \<rparr>"
    by (simp add: mounted_def useFDC3_effect_def Let_def useFDC3_initial_def)
  moreover have "isAvailable s \<longrightarrow>
        broadcast s (Some agent) c =
          ([Fdc3Broadcast c],
           case agent c of
             Fulfilled \<Rightarrow> [ConsoleLog ''[FDC3] Broadcast successful:'' (Some (LoggedContext c))]
           | RejectedWith e \<Rightarrow> [ConsoleError ''[FDC3] Broadcast failed:'' (LoggedError e)])"
    by (simp add: broadcast_agent)
  moreover have "\<not> isAvailable s \<or> w = None \<longrightarrow>
        broadcast s w c =
          ([ConsoleLog ''[FDC3 Mock] Would broadcast:'' (Some (LoggedContext c))], [])"
    by (simp add: broadcast_mock)
  moreover have "\<not> isAvailable s \<longrightarrow>
        broadcastAll s calls =
          map (\<lambda>(w, c). ConsoleLog ''[FDC3 Mock] Would broadcast:'' (Some (LoggedContext c))) calls"
    by (simp add: broadcastAll_mock)
  moreover have "Fdc3AddContextListener t \<notin> set (broadcastAll s calls)"
    by (rule no_subscription_in_broadcastAll)
  ultimately show ?thesis by blast
qed

theorem capability_cached_at_mount_witness:
  "useFDC3_effect (Some acceptingAgent) useFDC3_initial =
     (\<lparr> isAvailable = True, context' = None \<rparr>, [Fdc3AddContextListener ''fdc3.creditnexus.loan''])
   \<and> isAvailable (mounted (Some acceptingAgent))
   \<and> broadcast (mounted (Some acceptingAgent)) (Some acceptingAgent) (toWireContext mockAgreement) =
       ([Fdc3Broadcast (toWireContext mockAgreement)],
        [ConsoleLog ''[FDC3] Broadcast successful:'' (Some (LoggedContext (toWireContext mockAgreement)))])
   \<and> broadcast (mounted (Some acceptingAgent)) None (toWireContext mockAgreement) =
       ([ConsoleLog ''[FDC3 Mock] Would broadcast:'' (Some (LoggedContext (toWireContext mockAgreement)))], [])
   \<and> useFDC3_effect None useFDC3_initial =
       (\<lparr> isAvailable = False, context' = None \<rparr>,
        [ConsoleLog ''[FDC3 Mock] FDC3 not available, using mock mode'' None])
   \<and> \<not> isAvailable (mounted None)
   \<and> broadcastAll (mounted None)
        [(Some acceptingAgent, toWireContext mockAgreement), (None, toWireContext sampleAgreement)] =
       [ConsoleLog ''[FDC3 Mock] Would broadcast:'' (Some (LoggedContext (toWireContext mockAgreement))),
        ConsoleLog ''[FDC3 Mock] Would broadcast:'' (Some (LoggedContext (toWireContext sampleAgreement)))]"
proof -
  have a: "isAvailable (mounted (Some acceptingAgent))"
    by (simp add: isAvailable_mounted)
  have n: "\<not> isAvailable (mounted None)"
    by (simp add: isAvailable_mounted)
  from capability_cached_at_mount
    [of "Some acceptingAgent" useFDC3_initial acceptingAgent "toWireContext mockAgreement" None]
  have 1: "useFDC3_effect (Some acceptingAgent) useFDC3_initial =
     (\<lparr> isAvailable = True, context' = None \<rparr>, [Fdc3AddContextListener ''fdc3.creditnexus.loan''])"
    by (simp add: useFDC3_initial_def)
  from capability_cached_at_mount
    [of "Some acceptingAgent" "mounted (Some acceptingAgent)" acceptingAgent
      "toWireContext mockAgreement" None] a
  have "broadcast (mounted (Some acceptingAgent)) (Some acceptingAgent) (toWireContext mockAgreement) =
       ([Fdc3Broadcast (toWireContext mockAgreement)],
        case acceptingAgent (toWireContext mockAgreement) of
          Fulfilled \<Rightarrow> [ConsoleLog ''[FDC3] Broadcast successful:''
                         (Some (LoggedContext (toWireContext mockAgreement)))]
        | RejectedWith e \<Rightarrow> [ConsoleError ''[FDC3] Broadcast failed:'' (LoggedError e)])"
    and 3: "broadcast (mounted (Some acceptingAgent)) None (toWireContext mockAgreement) =
       ([ConsoleLog ''[FDC3 Mock] Would broadcast:'' (Some (LoggedContext (toWireContext mockAgreement)))], [])"
    by blast+
  then have 2: "broadcast (mounted (Some acceptingAgent)) (Some acceptingAgent) (toWireContext mockAgreement) =
       ([Fdc3Broadcast (toWireContext mockAgreement)],
        [ConsoleLog ''[FDC3] Broadcast successful:'' (Some (LoggedContext (toWireContext mockAgreement)))])"
    by (simp add: acceptingAgent_def)
  from capability_cached_at_mount
    [of None useFDC3_initial acceptingAgent "toWireContext mockAgreement" None]
  have 4: "useFDC3_effect None useFDC3_initial =
       (\<lparr> isAvailable = False, context' = None \<rparr>,
        [ConsoleLog ''[FDC3 Mock] FDC3 not available, using mock mode'' None])"
    by (simp add: useFDC3_initial_def)
  from capability_cached_at_mount
    [of None "mounted None" acceptingAgent "toWireContext mockAgreement" None
      "[(Some acceptingAgent, toWireContext mockAgreement), (None, toWireContext sampleAgreement)]"] n
  have "broadcastAll (mounted None)
        [(Some acceptingAgent, toWireContext mockAgreement), (None, toWireContext sampleAgreement)] =
       map (\<lambda>(w, c). ConsoleLog ''[FDC3 Mock] Would broadcast:'' (Some (LoggedContext c)))
        [(Some acceptingAgent, toWireContext mockAgreement), (None, toWireContext sampleAgreement)]"
    by blast
  then have 5: "broadcastAll (mounted None)
        [(Some acceptingAgent, toWireContext mockAgreement), (None, toWireContext sampleAgreement)] =
       [ConsoleLog ''[FDC3 Mock] Would broadcast:'' (Some (LoggedContext (toWireContext mockAgreement))),
        ConsoleLog ''[FDC3 Mock] Would broadcast:'' (Some (LoggedContext (toWireContext sampleAgreement)))]"
    by (simp del: broadcastAll.simps)
  from a n 1 2 3 4 5 show ?thesis by blast
qed

section \<open>The workflow\<close>

text \<open>
  Claim C9. When the loaded text is empty or consists of white space only, a call of
  \<^verbatim>\<open>handleExtract\<close> returns at its first line: no request is sent to the extraction
  endpoint (the effect list is empty, whatever the endpoint would have answered), the
  state is unchanged, and the Extract button is disabled.
\<close>

theorem extract_blank_text_no_request:
  assumes "\<forall>u\<in>set (documentText s). isWhiteSpace u"
  shows "handleExtract_begin s = (s, []) \<and> handleExtract s r = (s, []) \<and> extractDisabled s"
  using assms by (simp add: handleExtract_begin_def handleExtract_def extractDisabled_def trim_Nil_iff)

theorem extract_blank_text_no_request_witness:
  "isWhiteSpace 0x20 \<and> isWhiteSpace 0x0A \<and> isWhiteSpace 0x3000
   \<and> handleExtract (App_initial\<lparr> documentText := [0x20, 0x0A, 0x3000] \<rparr>) NetworkError
       = (App_initial\<lparr> documentText := [0x20, 0x0A, 0x3000] \<rparr>, [])"
proof -
  have h: "\<forall>u\<in>set (documentText (App_initial\<lparr> documentText := [0x20, 0x0A, 0x3000] \<rparr>)). isWhiteSpace u"
    by (simp add: isWhiteSpace_def)
  then have "isWhiteSpace 0x20 \<and> isWhiteSpace 0x0A \<and> isWhiteSpace 0x3000"
    by simp
  with extract_blank_text_no_request [OF h, of NetworkError] show ?thesis by blast
qed

text \<open>
  After a failed extraction the state of \<^verbatim>\<open>App\<close> is the state a successful extraction
  that returned the sample agreement would have left: the sample agreement is stored,
  with \<^verbatim>\<open>extraction_status\<close> \<^verbatim>\<open>success\<close>.
\<close>

theorem extraction_failure_counterexample:
  "fst (rt_handleExtract loadedState (RtResponse False RtNotJson))
     = fst (rt_handleExtract loadedState (RtResponse True (RtJson (encode mockAgreement))))
   \<and> rt_extractedData (fst (rt_handleExtract loadedState RtNetworkError)) = Some (encode mockAgreement)
   \<and> property (encode mockAgreement) ''extraction_status'' = Some (JString ''success'')"
  by (simp add: rt_handleExtract_nonblank [OF trim_loadedState] rt_handleExtract_settle_def
      readProperty_encode property_encode truthy_encode)
    (simp add: mockAgreement_def)

text \<open>
  Claim C3, amended. When the extraction call fails, the error is written to the error
  console under \<^verbatim>\<open>Extraction error:\<close>, the fixed sample agreement is stored as the
  extracted data, and \<^verbatim>\<open>isExtracting\<close> is reset; the state records no failure. The
  failures and their errors are: a network error (\<^verbatim>\<open>TypeError\<close>), a response that is
  not 2xx (\<^verbatim>\<open>Error('Extraction failed')\<close>), a body that is not JSON
  (\<^verbatim>\<open>SyntaxError\<close>), and the body \<^verbatim>\<open>null\<close> (\<^verbatim>\<open>TypeError\<close>). Any other 2xx JSON
  body, an agreement or not, is no failure: its \<^verbatim>\<open>agreement\<close> property when that is
  truthy, and else the body itself, is stored unchecked and nothing is logged. With a
  text that is not blank, \<^verbatim>\<open>handleExtract\<close> sends the request first and then does
  this.
\<close>

theorem extraction_failure_stores_sample:
  "rt_handleExtract_settle s RtNetworkError =
     (s\<lparr> rt_extractedData := Some (encode mockAgreement), rt_isExtracting := False \<rparr>,
      [ConsoleError ''Extraction error:'' (LoggedError TypeError)])
   \<and> rt_handleExtract_settle s (RtResponse False b) =
     (s\<lparr> rt_extractedData := Some (encode mockAgreement), rt_isExtracting := False \<rparr>,
      [ConsoleError ''Extraction error:'' (LoggedError (Error ''Extraction failed''))])
   \<and> rt_handleExtract_settle s (RtResponse True RtNotJson) =
     (s\<lparr> rt_extractedData := Some (encode mockAgreement), rt_isExtracting := False \<rparr>,
      [ConsoleError ''Extraction error:'' (LoggedError SyntaxError)])
   \<and> rt_handleExtract_settle s (RtResponse True (RtJson JNull)) =
     (s\<lparr> rt_extractedData := Some (encode mockAgreement), rt_isExtracting := False \<rparr>,
      [ConsoleError ''Extraction error:'' (LoggedError TypeError)])
   \<and> (j \<noteq> JNull \<longrightarrow>
        rt_handleExtract_settle s (RtResponse True (RtJson j)) =
          (s\<lparr> rt_extractedData :=
                 Some (case property j ''agreement'' of
                         None \<Rightarrow> j
                       | Some a \<Rightarrow> if truthy (Some a) then a else j),
               rt_isExtracting := False \<rparr>,
           []))
   \<and> (trim (rt_documentText s) \<noteq> [] \<longrightarrow>
        rt_handleExtract s r =
          (fst (rt_handleExtract_settle s r),
           Fetch (rt_documentText s) # snd (rt_handleExtract_settle s r)))"
proof -
  have "j \<noteq> JNull \<longrightarrow>
        rt_handleExtract_settle s (RtResponse True (RtJson j)) =
          (s\<lparr> rt_extractedData :=
                 Some (case property j ''agreement'' of
                         None \<Rightarrow> j
                       | Some a \<Rightarrow> if truthy (Some a) then a else j),
               rt_isExtracting := False \<rparr>,
           [])"
    by (cases j) (simp_all add: rt_handleExtract_settle_def readProperty_def split: option.splits)
  then show ?thesis
    by (simp add: rt_handleExtract_settle_def readProperty_def rt_handleExtract_nonblank)
qed

theorem extraction_failure_stores_sample_witness:
  "rt_handleExtract loadedState (RtResponse False RtNotJson) =
     (\<lparr> rt_documentText = sampleDocument, rt_extractedData = Some (encode mockAgreement),
        rt_isExtracting = False \<rparr>,
      [Fetch sampleDocument,
       ConsoleError ''Extraction error:'' (LoggedError (Error ''Extraction failed''))])
   \<and> JObject [(''detail'', JString ''no agreement found'')] \<noteq> JNull
   \<and> rt_handleExtract loadedState (RtResponse True (RtJson (JObject [(''detail'', JString ''no agreement found'')]))) =
     (\<lparr> rt_documentText = sampleDocument,
        rt_extractedData = Some (JObject [(''detail'', JString ''no agreement found'')]),
        rt_isExtracting = False \<rparr>,
      [Fetch sampleDocument])"
proof -
  have n: "JObject [(''detail'', JString ''no agreement found'')] \<noteq> JNull"
    by simp
  from extraction_failure_stores_sample
    [of loadedState RtNotJson "JObject [(''detail'', JString ''no agreement found'')]"
      "RtResponse False RtNotJson"]
  have 1: "rt_handleExtract loadedState (RtResponse False RtNotJson) =
     (\<lparr> rt_documentText = sampleDocument, rt_extractedData = Some (encode mockAgreement),
        rt_isExtracting = False \<rparr>,
      [Fetch sampleDocument,
       ConsoleError ''Extraction error:'' (LoggedError (Error ''Extraction failed''))])"
    using trim_loadedState by (simp add: loadedState_eq)
  from extraction_failure_stores_sample
    [of loadedState RtNotJson "JObject [(''detail'', JString ''no agreement found'')]"
      "RtResponse True (RtJson (JObject [(''detail'', JString ''no agreement found'')]))"]
  have 2: "rt_handleExtract loadedState (RtResponse True (RtJson (JObject [(''detail'', JString ''no agreement found'')]))) =
     (\<lparr> rt_documentText = sampleDocument,
        rt_extractedData = Some (JObject [(''detail'', JString ''no agreement found'')]),
        rt_isExtracting = False \<rparr>,
      [Fetch sampleDocument])"
    using trim_loadedState by (simp add: loadedState_eq)
  from n 1 2 show ?thesis by blast
qed

text \<open>
  Every load of a document discards the stored agreement: as soon as
  \<^verbatim>\<open>handleFileUpload\<close> has finished with a file, the text is that of the file and no
  extracted agreement is stored, so that a click on Approve, and \<^verbatim>\<open>handleApprove\<close>
  itself, publish nothing and call nothing; starting an extraction does not bring an
  agreement back.
\<close>

lemma load_discards_agreement:
  "extractedData (handleFileUpload (Some text) s) = None
   \<and> documentText (handleFileUpload (Some text) s) = text
   \<and> App_clickApprove h w (handleFileUpload (Some text) s) = []
   \<and> ReviewInterface_handleApprove h w onApprove (extractedData (handleFileUpload (Some text) s)) = []
   \<and> extractedData (fst (handleExtract_begin (handleFileUpload (Some text) s))) = None"
  by (simp add: handleFileUpload_def App_clickApprove_def clickApprove_None
      ReviewInterface_handleApprove_def handleExtract_begin_def)

lemma load_discards_stored_sample:
  "extractedData (reviewState mockAgreement) = Some mockAgreement
   \<and> extractedData (handleFileUpload (Some otherDocument) (reviewState mockAgreement)) = None
   \<and> App_clickApprove (mounted (Some acceptingAgent)) (Some acceptingAgent)
        (handleFileUpload (Some otherDocument) (reviewState mockAgreement)) = []"
  using load_discards_agreement [of otherDocument "reviewState mockAgreement"
      "mounted (Some acceptingAgent)" "Some acceptingAgent"]
  by (simp add: extractedData_reviewState)

text \<open>
  Claim C7. After a load, Approve must never publish data extracted from an earlier
  document. The code departs from this when a load happens while an extraction is under
  way. \<^verbatim>\<open>Loan\<close> is loaded and sent for extraction (the one request carries its text);
  \<^verbatim>\<open>Lease\<close> is loaded before the answer arrives, which the file input allows; the
  answer, extracted from \<^verbatim>\<open>Loan\<close>, is stored all the same; a click on Approve then
  broadcasts it while the loaded document is \<^verbatim>\<open>Lease\<close>.
\<close>

theorem stale_result_published:
  "snd (handleExtract_begin (handleFileUpload (Some sampleDocument) App_initial)) = [Fetch sampleDocument]
   \<and> documentText staleState = otherDocument
   \<and> otherDocument \<noteq> sampleDocument
   \<and> extractedData staleState = Some sampleAgreement
   \<and> broadcasts (App_clickApprove (mounted (Some acceptingAgent)) (Some acceptingAgent) staleState)
       = [toWireContext sampleAgreement]"
proof -
  have s: "staleState =
      \<lparr> documentText = otherDocument, extractedData = Some sampleAgreement, isExtracting = False \<rparr>"
    by (simp add: staleState_def handleExtract_begin_def handleExtract_settle_def
        handleFileUpload_def App_initial_def sampleDocument_def trim_def isWhiteSpace_def)
  have b: "snd (handleExtract_begin (handleFileUpload (Some sampleDocument) App_initial)) = [Fetch sampleDocument]"
    by (simp add: handleExtract_begin_def handleFileUpload_def App_initial_def sampleDocument_def
        trim_def isWhiteSpace_def)
  have i: "isSuccess sampleAgreement"
    by (simp add: isSuccess_def sampleAgreement_def)
  have n: "otherDocument \<noteq> sampleDocument"
    by (simp add: otherDocument_def sampleDocument_def)
  from b i n show ?thesis
    by (simp add: s App_clickApprove_def clickApprove_enabled broadcasts_handleApprove
        isAvailable_mounted)
qed

text \<open>
  An agreement whose \<^verbatim>\<open>extraction_status\<close> is not set is approved and broadcast by a
  click on Approve. \<^verbatim>\<open>handleApprove\<close> itself does not look at the status at all: called
  with an agreement marked \<^verbatim>\<open>irrelevant_document\<close>, it broadcasts it.
\<close>

theorem approve_unset_status_counterexample:
  "extraction_status sampleAgreement = None
   \<and> extractedData (reviewState sampleAgreement) = Some sampleAgreement
   \<and> broadcasts (App_clickApprove (mounted (Some acceptingAgent)) (Some acceptingAgent)
        (reviewState sampleAgreement)) = [toWireContext sampleAgreement]
   \<and> broadcasts (ReviewInterface_handleApprove (mounted (Some acceptingAgent)) (Some acceptingAgent)
        App_handleApprove (Some (sampleAgreement\<lparr> extraction_status := Some ''irrelevant_document'' \<rparr>)))
       = [toWireContext (sampleAgreement\<lparr> extraction_status := Some ''irrelevant_document'' \<rparr>)]"
proof -
  have "isSuccess sampleAgreement"
    by (simp add: isSuccess_def sampleAgreement_def)
  then show ?thesis
    by (simp add: App_clickApprove_def extractedData_reviewState clickApprove_enabled
        broadcasts_handleApprove isAvailable_mounted) (simp add: sampleAgreement_def)
qed

text \<open>
  Claim C1, amended. A click on Approve is accepted (the agreement is mapped, handed to
  \<^verbatim>\<open>broadcast\<close>, and \<^verbatim>\<open>onApprove\<close> is called) exactly when an extracted agreement is
  stored and its \<^verbatim>\<open>extraction_status\<close> is \<^verbatim>\<open>success\<close>, not set, or empty. In every
  other case the click does nothing at all: nothing is published, no callback runs, and
  no error is raised.
\<close>

theorem approve_enabled_iff:
  "((App_clickApprove h w s \<noteq> []) \<longleftrightarrow>
      (\<exists>d. extractedData s = Some d
         \<and> (extraction_status d = Some ''success'' \<or> extraction_status d = None
            \<or> extraction_status d = Some [])))
   \<and> (extractedData s = Some d \<and> isSuccess d \<longrightarrow>
        App_clickApprove h w s =
          fst (broadcast h w (toWireContext d)) @ App_handleApprove d
            @ snd (broadcast h w (toWireContext d)))"
proof
  show "(App_clickApprove h w s \<noteq> []) \<longleftrightarrow>
     (\<exists>d. extractedData s = Some d
        \<and> (extraction_status d = Some ''success'' \<or> extraction_status d = None
           \<or> extraction_status d = Some []))"
  proof (cases "extractedData s")
    case None
    then show ?thesis by (simp add: App_clickApprove_def clickApprove_None)
  next
    case (Some d)
    show ?thesis
    proof (cases "isSuccess d")
      case True
      with Some show ?thesis
        by (simp add: App_clickApprove_def clickApprove_enabled handleApprove_Some
            broadcast_now_not_Nil) (simp add: isSuccess_def)
    next
      case False
      with Some show ?thesis
        by (simp add: App_clickApprove_def clickApprove_disabled) (simp add: isSuccess_def)
    qed
  qed
  show "extractedData s = Some d \<and> isSuccess d \<longrightarrow>
     App_clickApprove h w s =
       fst (broadcast h w (toWireContext d)) @ App_handleApprove d
         @ snd (broadcast h w (toWireContext d))"
    by (simp add: App_clickApprove_def clickApprove_enabled handleApprove_Some)
qed

theorem approve_enabled_iff_witness:
  "extractedData (reviewState mockAgreement) = Some mockAgreement
   \<and> isSuccess mockAgreement
   \<and> App_clickApprove (mounted (Some acceptingAgent)) (Some acceptingAgent) (reviewState mockAgreement) =
       [Fdc3Broadcast (toWireContext mockAgreement),
        ConsoleLog ''Approved:'' (Some (LoggedAgreement mockAgreement)),
        Alert ''Data approved and sent to staging area'',
        ConsoleLog ''[FDC3] Broadcast successful:'' (Some (LoggedContext (toWireContext mockAgreement)))]
   \<and> App_clickApprove (mounted (Some acceptingAgent)) (Some acceptingAgent)
        (reviewState (mockAgreement\<lparr> extraction_status := Some ''irrelevant_document'' \<rparr>)) = []"
proof -
  have e: "extractedData (reviewState mockAgreement) = Some mockAgreement"
    by (rule extractedData_reviewState)
  have i: "isSuccess mockAgreement"
    by (simp add: isSuccess_def mockAgreement_def)
  have n: "\<not> (\<exists>d. extractedData (reviewState (mockAgreement\<lparr> extraction_status := Some ''irrelevant_document'' \<rparr>)) = Some d
        \<and> (extraction_status d = Some ''success'' \<or> extraction_status d = None
           \<or> extraction_status d = Some []))"
    by (simp add: extractedData_reviewState)
  from approve_enabled_iff [of "mounted (Some acceptingAgent)" "Some acceptingAgent"
      "reviewState mockAgreement" mockAgreement] e i
  have 1: "App_clickApprove (mounted (Some acceptingAgent)) (Some acceptingAgent) (reviewState mockAgreement) =
       [Fdc3Broadcast (toWireContext mockAgreement),
        ConsoleLog ''Approved:'' (Some (LoggedAgreement mockAgreement)),
        Alert ''Data approved and sent to staging area'',
        ConsoleLog ''[FDC3] Broadcast successful:'' (Some (LoggedContext (toWireContext mockAgreement)))]"
    by (simp add: broadcast_agent isAvailable_mounted acceptingAgent_def App_handleApprove_def)
  from approve_enabled_iff [of "mounted (Some acceptingAgent)" "Some acceptingAgent"
      "reviewState (mockAgreement\<lparr> extraction_status := Some ''irrelevant_document'' \<rparr>)" mockAgreement] n
  have 2: "App_clickApprove (mounted (Some acceptingAgent)) (Some acceptingAgent)
        (reviewState (mockAgreement\<lparr> extraction_status := Some ''irrelevant_document'' \<rparr>)) = []"
    by blast
  from e i 1 2 show ?thesis by blast
qed

text \<open>
  Claim C10. With an empty rejection reason the reason handed to \<^verbatim>\<open>onReject\<close>, which
  \<^verbatim>\<open>App\<close> logs and shows, is the fixed string \<^verbatim>\<open>Rejected by analyst\<close>; a reason that
  is not empty is handed on, logged and shown unchanged.
\<close>

theorem reject_reason_default:
  "(r = [] \<longrightarrow>
      ReviewInterface_handleReject App_handleReject r =
        [ConsoleLog ''Rejected:'' (Some (LoggedReason (Some ''Rejected by analyst''))),
         Alert ''Data rejected: Rejected by analyst''])
   \<and> (r \<noteq> [] \<longrightarrow>
      ReviewInterface_handleReject App_handleReject r =
        [ConsoleLog ''Rejected:'' (Some (LoggedReason (Some r))),
         Alert (''Data rejected: '' @ r)])"
  by (simp add: ReviewInterface_handleReject_def App_handleReject_def)

theorem reject_reason_default_witness:
  "ReviewInterface_handleReject App_handleReject [] =
     [ConsoleLog ''Rejected:'' (Some (LoggedReason (Some ''Rejected by analyst''))),
      Alert ''Data rejected: Rejected by analyst'']
   \<and> ''Wrong borrower'' \<noteq> []
   \<and> ReviewInterface_handleReject App_handleReject ''Wrong borrower'' =
       [ConsoleLog ''Rejected:'' (Some (LoggedReason (Some ''Wrong borrower''))),
        Alert ''Data rejected: Wrong borrower'']"
  using reject_reason_default [of "[]"] reject_reason_default [of "''Wrong borrower''"]
  by simp

end
